theory Spec2Isabelle
  imports Complex_Main
begin

section \<open>Python values and results\<close>

text \<open>
  The backend of \<^verbatim>\<open>celery_redis_sentinel/backend.py\<close> is Python: its functions take and
  return arbitrary objects. The objects that occur are modelled by one datatype. A builtin
  class is known by its name; a class defined by a \<^verbatim>\<open>class\<close> statement by its
  \<^verbatim>\<open>__module__\<close> and \<^verbatim>\<open>__name__\<close>; a class made by a call \<^verbatim>\<open>type(name, bases, {})\<close> by the
  module of the call, its name and its bases. An instance is a class together with its
  \<^verbatim>\<open>args\<close>, the observable state of an exception. Two values that are equal here are
  indistinguishable to the code; object identity is not modelled.
\<close>

datatype pyclass =
    Builtin string
  | UserClass string string
  | TypeCall string string "pyclass list"

datatype pyval =
    PNone
  | PBool bool
  | PInt int
  | PFloat rat
  | PStr string
  | PBytes "nat list"
  | PList "pyval list"
  | PDict "(pyval \<times> pyval) list"
  | PClass pyclass
  | PModule string
  | PInst pyclass "pyval list"

text \<open>
  A float is represented by the rational number its literal denotes; the code compares and
  stores floats and never computes with them.

  A call either returns a value or raises an exception object: \<open>Inl\<close> is the raised
  exception, \<open>Inr\<close> the returned value.
\<close>

type_synonym 'a result = "pyval + 'a"

definition raise :: "string \<Rightarrow> pyval list \<Rightarrow> 'a result" where
  "raise name args = Inl (PInst (Builtin name) args)"

definition and_then :: "'a result \<Rightarrow> ('a \<Rightarrow> 'b result) \<Rightarrow> 'b result" where
  "and_then r f = (case r of Inl exn \<Rightarrow> Inl exn | Inr v \<Rightarrow> f v)"

text \<open>\<^verbatim>\<open>try: body  except: handler\<close> with a bare \<^verbatim>\<open>except\<close>, which catches every exception.\<close>

definition try_except :: "'a result \<Rightarrow> 'a result \<Rightarrow> 'a result" where
  "try_except body handler = (case body of Inl exn \<Rightarrow> handler | Inr v \<Rightarrow> Inr v)"

fun cls_name :: "pyclass \<Rightarrow> string" where
  "cls_name (Builtin n) = n"
| "cls_name (UserClass m n) = n"
| "cls_name (TypeCall m n bs) = n"

fun is_instance :: "pyval \<Rightarrow> bool" where
  "is_instance (PInst c args) = True"
| "is_instance v = False"

text \<open>Subscription \<^verbatim>\<open>d[k]\<close>: a dictionary raises \<^verbatim>\<open>KeyError(k)\<close> on a missing key; the
  other values of the model cannot be subscripted by a string and raise \<^verbatim>\<open>TypeError\<close>.\<close>

fun getitem :: "pyval \<Rightarrow> pyval \<Rightarrow> pyval result" where
  "getitem (PDict kvs) k = (case map_of kvs k of None \<Rightarrow> raise ''KeyError'' [k] | Some v \<Rightarrow> Inr v)"
| "getitem v k = raise ''TypeError'' []"

text \<open>\<^verbatim>\<open>d.get(k, default)\<close>: defined on dictionaries only.\<close>

fun dict_get :: "pyval \<Rightarrow> pyval \<Rightarrow> pyval \<Rightarrow> pyval result" where
  "dict_get (PDict kvs) k dflt = (case map_of kvs k of None \<Rightarrow> Inr dflt | Some v \<Rightarrow> Inr v)"
| "dict_get v k dflt = raise ''AttributeError'' []"

text \<open>Truth value testing, as \<^verbatim>\<open>or\<close> applies it: \<^verbatim>\<open>None\<close>, \<^verbatim>\<open>False\<close>, zero and the empty
  string, bytes, list and dictionary are false.\<close>

fun truthy :: "pyval \<Rightarrow> bool" where
  "truthy PNone = False"
| "truthy (PBool b) = b"
| "truthy (PInt i) = (i \<noteq> 0)"
| "truthy (PFloat x) = (x \<noteq> 0)"
| "truthy (PStr s) = (s \<noteq> [])"
| "truthy (PBytes bs) = (bs \<noteq> [])"
| "truthy (PList xs) = (xs \<noteq> [])"
| "truthy (PDict kvs) = (kvs \<noteq> [])"
| "truthy v = True"

definition py_or :: "pyval \<Rightarrow> pyval \<Rightarrow> pyval" where
  "py_or a b = (if truthy a then a else b)"

section \<open>The runtime the codec runs in\<close>

text \<open>
  \<^verbatim>\<open>_wrap_exc\<close> and \<^verbatim>\<open>_unwrap_exc\<close> call the standard library (\<^verbatim>\<open>json\<close>, \<^verbatim>\<open>pickle\<close>,
  \<^verbatim>\<open>importlib\<close>, \<^verbatim>\<open>sys.modules\<close>) and methods of user classes. None of that is code of the
  backend, and it differs between Python versions (\<^verbatim>\<open>pickle.dumps\<close> returns text that
  \<^verbatim>\<open>json\<close> accepts on Python 2 and bytes that it rejects on Python 3). The runtime is
  therefore a parameter: a record of the operations as the process provides them, each
  returning a value or raising.
\<close>

record runtime =
  builtin_type_name :: "pyval \<Rightarrow> string"
  builtins_module :: "string \<Rightarrow> string"
  hasattr :: "pyval \<Rightarrow> string \<Rightarrow> bool result"
  call_method :: "pyval \<Rightarrow> string \<Rightarrow> pyval list \<Rightarrow> pyval result"
  getattr :: "pyval \<Rightarrow> pyval \<Rightarrow> pyval result"
  py_str :: "pyval \<Rightarrow> pyval result"
  json_dumps :: "pyval \<Rightarrow> pyval result"
  json_loads :: "pyval \<Rightarrow> pyval result"
  pickle_dumps :: "pyval \<Rightarrow> pyval result"
  pickle_loads :: "pyval \<Rightarrow> pyval result"
  sys_modules :: "string \<rightharpoonup> pyval"
  import_module :: "pyval \<Rightarrow> pyval result"

text \<open>\<^verbatim>\<open>type(e)\<close>: the class of an instance is the class it was made from; the class of any
  other value is a builtin type, named by the runtime (\<^verbatim>\<open>str\<close> or \<^verbatim>\<open>unicode\<close>, say).\<close>

definition py_type :: "runtime \<Rightarrow> pyval \<Rightarrow> pyclass" where
  "py_type rt v = (case v of PInst c args \<Rightarrow> c | _ \<Rightarrow> Builtin (builtin_type_name rt v))"

text \<open>\<^verbatim>\<open>cls.__module__\<close>: the module that defines a builtin class is named by the runtime
  (\<^verbatim>\<open>builtins\<close> on Python 3; \<^verbatim>\<open>exceptions\<close> or \<^verbatim>\<open>__builtin__\<close> on Python 2).\<close>

fun cls_module :: "runtime \<Rightarrow> pyclass \<Rightarrow> string" where
  "cls_module rt (Builtin n) = builtins_module rt n"
| "cls_module rt (UserClass m n) = m"
| "cls_module rt (TypeCall m n bs) = m"

text \<open>\<^verbatim>\<open>sys.modules.get(name)\<close>: \<^verbatim>\<open>None\<close> for a name that is not registered; a list or a
  dictionary is unhashable and raises \<^verbatim>\<open>TypeError\<close>; the registry has only string keys.\<close>

definition modules_get :: "runtime \<Rightarrow> pyval \<Rightarrow> pyval result" where
  "modules_get rt module_name =
     (case module_name of
        PStr s \<Rightarrow> Inr (case sys_modules rt s of None \<Rightarrow> PNone | Some m \<Rightarrow> m)
      | PList xs \<Rightarrow> raise ''TypeError'' []
      | PDict kvs \<Rightarrow> raise ''TypeError'' []
      | _ \<Rightarrow> Inr PNone)"

text \<open>\<^verbatim>\<open>isinstance(module, ModuleType)\<close>\<close>

fun is_module :: "pyval \<Rightarrow> bool" where
  "is_module (PModule n) = True"
| "is_module v = False"

section \<open>The exception envelope codec\<close>

text \<open>
  \<^verbatim>\<open>RedisSentinelBackend._get_module\<close> (backend.py, lines 96 to 104). An identifier cannot
  start with an underscore here, so the leading underscores of the source's names are
  dropped.
\<close>

definition get_module :: "runtime \<Rightarrow> pyval \<Rightarrow> pyval result" where
  "get_module rt module_name =
     and_then (modules_get rt module_name) (\<lambda>module.
       if is_module module then Inr module
       else import_module rt module_name)"

text \<open>The dictionary literal of \<^verbatim>\<open>_wrap_exc\<close>, with its three keys in the source's order.\<close>

definition envelope :: "pyval \<Rightarrow> pyval \<Rightarrow> pyval \<Rightarrow> pyval" where
  "envelope ty module_name data =
     PDict [(PStr ''type'', ty), (PStr ''module'', module_name), (PStr ''data'', data)]"

text \<open>\<^verbatim>\<open>Exception(text)\<close>: an instance of the base class \<^verbatim>\<open>Exception\<close>.\<close>

definition Exception :: "pyval \<Rightarrow> pyval" where
  "Exception text = PInst (Builtin ''Exception'') [text]"

text \<open>The body of the \<^verbatim>\<open>try\<close> of \<^verbatim>\<open>_wrap_exc\<close> (lines 77 to 81).\<close>

definition wrap_body :: "runtime \<Rightarrow> pyval \<Rightarrow> pyval result" where
  "wrap_body rt e =
     and_then (hasattr rt e ''serialize'') (\<lambda>has.
     and_then (if has then call_method rt e ''serialize'' [] else pickle_dumps rt e) (\<lambda>data.
     and_then (json_dumps rt (envelope (PStr (cls_name (py_type rt e)))
                                       (PStr (cls_module rt (py_type rt e)))
                                       data)) (\<lambda>text.
     Inr (Exception text))))"

text \<open>\<^verbatim>\<open>RedisSentinelBackend._wrap_exc\<close> (lines 74 to 83).\<close>

definition wrap_exc :: "runtime \<Rightarrow> pyval \<Rightarrow> pyval result" where
  "wrap_exc rt e = try_except (wrap_body rt e) (Inr e)"

text \<open>The body of the \<^verbatim>\<open>try\<close> of \<^verbatim>\<open>_unwrap_exc\<close> (lines 88 to 92). The arguments of
  \<^verbatim>\<open>getattr\<close> are evaluated from left to right: the module is resolved before
  \<^verbatim>\<open>exc['type']\<close> is read.\<close>

definition unwrap_body :: "runtime \<Rightarrow> pyval \<Rightarrow> pyval result" where
  "unwrap_body rt e =
     and_then (py_str rt e) (\<lambda>s.
     and_then (json_loads rt s) (\<lambda>exc.
     and_then (getitem exc (PStr ''module'')) (\<lambda>module_name.
     and_then (get_module rt module_name) (\<lambda>module.
     and_then (getitem exc (PStr ''type'')) (\<lambda>ty.
     and_then (getattr rt module ty) (\<lambda>cls.
     and_then (hasattr rt cls ''deserialize'') (\<lambda>has.
       if has then and_then (getitem exc (PStr ''data'')) (\<lambda>data.
                   call_method rt cls ''deserialize'' [data])
       else and_then (getitem exc (PStr ''data'')) (\<lambda>data.
              pickle_loads rt data))))))))"

text \<open>\<^verbatim>\<open>RedisSentinelBackend._unwrap_exc\<close> (lines 85 to 94).\<close>

definition unwrap_exc :: "runtime \<Rightarrow> pyval \<Rightarrow> pyval result" where
  "unwrap_exc rt e = try_except (unwrap_body rt e) (Inr e)"

section \<open>The backend\<close>

text \<open>
  \<^verbatim>\<open>RedisSentinelBackend\<close> extends celery's \<^verbatim>\<open>RedisBackend\<close>, whose constructor runs first.
  Of the state the parent sets up, the code reads the application's configuration
  (\<^verbatim>\<open>self.app.conf\<close>) and the connection parameters (\<^verbatim>\<open>self.connparams\<close>). The slot of the
  \<^verbatim>\<open>cached_property\<close> is the entry \<^verbatim>\<open>client\<close> of the instance's \<^verbatim>\<open>__dict__\<close>, absent until
  the first access.
\<close>

record redis_backend =
  app_conf :: "string \<rightharpoonup> pyval"
  connparams :: "string \<rightharpoonup> pyval"

record sentinel_backend = redis_backend +
  transport_options :: pyval
  sentinels :: pyval
  service_name :: pyval
  socket_timeout :: pyval
  client_cache :: "pyval option"

text \<open>\<^verbatim>\<open>self.app.conf.get(key)\<close>: \<^verbatim>\<open>None\<close> for a key that is not configured.\<close>

definition conf_get :: "redis_backend \<Rightarrow> string \<Rightarrow> pyval" where
  "conf_get self key = (case app_conf self key of None \<Rightarrow> PNone | Some v \<Rightarrow> v)"

text \<open>
  \<^verbatim>\<open>RedisSentinelBackend.__init__\<close> (lines 32 to 39). \<open>super_init\<close> is the outcome of the
  parent's constructor, which is not code of this repository: the exception it raised, or
  the state it set up. \<^verbatim>\<open>a or b or c\<close> is the first true operand, or the last one.
\<close>

definition RedisSentinelBackend_init :: "redis_backend result \<Rightarrow> pyval \<Rightarrow> sentinel_backend result" where
  "RedisSentinelBackend_init super_init transport_options_arg =
     and_then super_init (\<lambda>self.
       let topts = py_or transport_options_arg
                     (py_or (conf_get self ''CELERY_RESULT_BACKEND_TRANSPORT_OPTIONS'') (PDict []))
       in
       and_then (getitem topts (PStr ''sentinels'')) (\<lambda>sents.
       and_then (getitem topts (PStr ''service_name'')) (\<lambda>name.
       and_then (dict_get topts (PStr ''socket_timeout'') (PFloat (1 / 10))) (\<lambda>timeout.
       Inr \<lparr>app_conf = app_conf self, connparams = connparams self,
            transport_options = topts, sentinels = sents, service_name = name,
            socket_timeout = timeout, client_cache = None\<rparr>))))"

text \<open>The two classes that \<^verbatim>\<open>client\<close> combines, and the class it makes of them:
  \<^verbatim>\<open>type(str('Redis'), (EnsuredRedisMixin, Redis), {})\<close>.\<close>

definition EnsuredRedisMixin :: pyclass where
  "EnsuredRedisMixin = UserClass ''celery_redis_sentinel.redis_sentinel'' ''EnsuredRedisMixin''"

definition Redis :: pyclass where
  "Redis = UserClass ''redis.client'' ''Redis''"

definition redis_class :: pyclass where
  "redis_class = TypeCall ''celery_redis_sentinel.backend'' ''Redis'' [EnsuredRedisMixin, Redis]"

text \<open>\<^verbatim>\<open>params.update({...})\<close> on \<^verbatim>\<open>params = self.connparams\<close>: the three entries are written
  into the dictionary that the backend holds.\<close>

definition sentinel_params :: "sentinel_backend \<Rightarrow> (string \<rightharpoonup> pyval)" where
  "sentinel_params self =
     (connparams self)(''sentinels'' \<mapsto> sentinels self,
                       ''service_name'' \<mapsto> service_name self,
                       ''socket_timeout'' \<mapsto> socket_timeout self)"

text \<open>
  \<^verbatim>\<open>RedisSentinelBackend.client\<close> (lines 41 to 64), read through kombu's \<^verbatim>\<open>cached_property\<close>:
  an access returns the stored value when the slot is filled, and otherwise runs the body
  and stores what it returns; a body that raises stores nothing. \<^verbatim>\<open>get_redis_via_sentinel\<close>
  is defined in \<^verbatim>\<open>redis_sentinel.py\<close> and is a parameter here. It is called with the keyword
  \<^verbatim>\<open>redis_class\<close> and \<^verbatim>\<open>**params\<close>, which Python rejects with \<^verbatim>\<open>TypeError\<close> when \<^verbatim>\<open>params\<close>
  has that keyword too.
\<close>

definition client ::
  "(pyclass \<Rightarrow> (string \<rightharpoonup> pyval) \<Rightarrow> pyval result) \<Rightarrow> sentinel_backend
     \<Rightarrow> pyval result \<times> sentinel_backend" where
  "client get_redis_via_sentinel self =
     (case client_cache self of
        Some c \<Rightarrow> (Inr c, self)
      | None \<Rightarrow>
          let params = sentinel_params self;
              self1 = self\<lparr>connparams := params\<rparr>
          in if params ''redis_class'' \<noteq> None then (raise ''TypeError'' [], self1)
             else (case get_redis_via_sentinel redis_class params of
                     Inl exn \<Rightarrow> (Inl exn, self1)
                   | Inr c \<Rightarrow> (Inr c, self1\<lparr>client_cache := Some c\<rparr>)))"

text \<open>Reading \<^verbatim>\<open>backend.client\<close> \<open>n\<close> times in a row; the value of the last access is kept.\<close>

fun client_again ::
  "(pyclass \<Rightarrow> (string \<rightharpoonup> pyval) \<Rightarrow> pyval result) \<Rightarrow> nat \<Rightarrow> pyval result \<times> sentinel_backend
     \<Rightarrow> pyval result \<times> sentinel_backend" where
  "client_again g 0 acc = acc"
| "client_again g (Suc n) acc = client_again g n (client g (snd acc))"

section \<open>A Python 3 process\<close>

text \<open>
  A concrete runtime, on which the results below are evaluated: a CPython 3.8 to 3.13
  process that has imported the module \<^verbatim>\<open>app\<close>,
  \<^verbatim>\<open>
  class MyError(Exception):
      pass

  class CodecError(Exception):
      def serialize(self):
          return self.args[0]
      @classmethod
      def deserialize(cls, data):
          return cls(data)

  def make_local():
      class LocalError(Exception):
          ...                      # the body of CodecError
      return LocalError
  \<close>
  and has called \<^verbatim>\<open>make_local()\<close>. \<^verbatim>\<open>LocalError\<close> has \<^verbatim>\<open>__module__ == 'app'\<close> and is not an
  attribute of the module. Each operation answers as CPython does on the part of its
  domain that is written out, and is \<open>unmodelled\<close> elsewhere.
\<close>

abbreviation unmodelled :: "'a result" where
  "unmodelled \<equiv> raise ''NotImplementedError'' []"

definition MyError :: pyclass where
  "MyError = UserClass ''app'' ''MyError''"

definition CodecError :: pyclass where
  "CodecError = UserClass ''app'' ''CodecError''"

definition LocalError :: pyclass where
  "LocalError = UserClass ''app'' ''LocalError''"

definition has_codec :: "pyclass \<Rightarrow> bool" where
  "has_codec c = (c = CodecError \<or> c = LocalError)"

fun app_builtin_type_name :: "pyval \<Rightarrow> string" where
  "app_builtin_type_name PNone = ''NoneType''"
| "app_builtin_type_name (PBool b) = ''bool''"
| "app_builtin_type_name (PInt i) = ''int''"
| "app_builtin_type_name (PFloat x) = ''float''"
| "app_builtin_type_name (PStr s) = ''str''"
| "app_builtin_type_name (PBytes bs) = ''bytes''"
| "app_builtin_type_name (PList xs) = ''list''"
| "app_builtin_type_name (PDict kvs) = ''dict''"
| "app_builtin_type_name (PClass c) = ''type''"
| "app_builtin_type_name (PModule n) = ''module''"
| "app_builtin_type_name (PInst c args) = cls_name c"

text \<open>\<^verbatim>\<open>hasattr\<close>, for the two names the codec asks about: the instances and the class objects
  of \<^verbatim>\<open>CodecError\<close> and \<^verbatim>\<open>LocalError\<close> have both, no other value has either.\<close>

definition app_hasattr :: "pyval \<Rightarrow> string \<Rightarrow> bool result" where
  "app_hasattr v n =
     (if n \<noteq> ''serialize'' \<and> n \<noteq> ''deserialize'' then unmodelled
      else case v of
             PInst c args \<Rightarrow> Inr (has_codec c)
           | PClass c \<Rightarrow> Inr (has_codec c)
           | _ \<Rightarrow> Inr False)"

definition app_call_method :: "pyval \<Rightarrow> string \<Rightarrow> pyval list \<Rightarrow> pyval result" where
  "app_call_method v n xs =
     (if n = ''serialize'' then
        (case v of
           PInst c args \<Rightarrow>
             if \<not> has_codec c then raise ''AttributeError'' []
             else if xs \<noteq> [] then raise ''TypeError'' []
             else (case args of [] \<Rightarrow> raise ''IndexError'' [] | d # ds \<Rightarrow> Inr d)
         | PClass c \<Rightarrow> if has_codec c then raise ''TypeError'' [] else raise ''AttributeError'' []
         | _ \<Rightarrow> raise ''AttributeError'' [])
      else if n = ''deserialize'' then
        (case v of
           PInst c args \<Rightarrow>
             if \<not> has_codec c then raise ''AttributeError'' []
             else (case xs of [d] \<Rightarrow> Inr (PInst c [d]) | _ \<Rightarrow> raise ''TypeError'' [])
         | PClass c \<Rightarrow>
             if \<not> has_codec c then raise ''AttributeError'' []
             else (case xs of [d] \<Rightarrow> Inr (PInst c [d]) | _ \<Rightarrow> raise ''TypeError'' [])
         | _ \<Rightarrow> raise ''AttributeError'' [])
      else unmodelled)"

text \<open>The attributes of the module \<^verbatim>\<open>app\<close> that are classes.\<close>

definition app_classes :: "(string \<times> pyval) list" where
  "app_classes = [(''MyError'', PClass MyError), (''CodecError'', PClass CodecError)]"

definition app_getattr :: "pyval \<Rightarrow> pyval \<Rightarrow> pyval result" where
  "app_getattr v name =
     (case name of
        PStr n \<Rightarrow>
          (case v of
             PModule m \<Rightarrow>
               if m \<noteq> ''app'' then unmodelled
               else (case map_of app_classes n of
                       Some c \<Rightarrow> Inr c
                     | None \<Rightarrow> if n = ''LocalError'' then raise ''AttributeError'' []
                               else unmodelled)
           | _ \<Rightarrow> unmodelled)
      | _ \<Rightarrow> raise ''TypeError'' [])"

text \<open>\<^verbatim>\<open>str\<close> of a string, and of an instance of \<^verbatim>\<open>Exception\<close> or of a class of \<^verbatim>\<open>app\<close>, none
  of which overrides \<^verbatim>\<open>__str__\<close>: the empty string without arguments, the argument itself
  when it is the only one and a string.\<close>

definition app_py_str :: "pyval \<Rightarrow> pyval result" where
  "app_py_str v =
     (case v of
        PStr s \<Rightarrow> Inr (PStr s)
      | PInst c args \<Rightarrow>
          if c \<noteq> Builtin ''Exception'' \<and> c \<noteq> MyError \<and> \<not> has_codec c then unmodelled
          else (case args of
                  [] \<Rightarrow> Inr (PStr [])
                | [PStr s] \<Rightarrow> Inr (PStr s)
                | _ \<Rightarrow> unmodelled)
      | _ \<Rightarrow> unmodelled)"

text \<open>What \<^verbatim>\<open>json.dumps\<close> accepts with its default encoder: \<^verbatim>\<open>None\<close>, booleans, numbers,
  strings, lists of such values and dictionaries of them under such keys; not bytes,
  classes, modules or instances.\<close>

fun json_serializable :: "pyval \<Rightarrow> bool" where
  "json_serializable PNone = True"
| "json_serializable (PBool b) = True"
| "json_serializable (PInt i) = True"
| "json_serializable (PFloat x) = True"
| "json_serializable (PStr s) = True"
| "json_serializable (PList xs) = list_all json_serializable xs"
| "json_serializable (PDict kvs) =
     list_all (\<lambda>kv. (case fst kv of PNone \<Rightarrow> True | PBool b \<Rightarrow> True | PInt i \<Rightarrow> True
                               | PFloat x \<Rightarrow> True | PStr s \<Rightarrow> True | _ \<Rightarrow> False)
                    \<and> json_serializable (snd kv)) kvs"
| "json_serializable v = False"

text \<open>The JSON documents of this process, each with the value it encodes.\<close>

definition app_documents :: "(pyval \<times> string) list" where
  \<open>app_documents =
     [(envelope (PStr ''CodecError'') (PStr ''app'') (PStr ''boom''),
       ''{"type": "CodecError", "module": "app", "data": "boom"}''),
      (envelope (PStr ''LocalError'') (PStr ''app'') (PStr ''boom''),
       ''{"type": "LocalError", "module": "app", "data": "boom"}'')]\<close>

definition app_json_dumps :: "pyval \<Rightarrow> pyval result" where
  "app_json_dumps v =
     (if \<not> json_serializable v then raise ''TypeError'' []
      else case map_of app_documents v of Some text \<Rightarrow> Inr (PStr text) | None \<Rightarrow> unmodelled)"

text \<open>A JSON text starts, after white space, with one of a few characters; a text that
  starts otherwise is rejected with \<^verbatim>\<open>json.JSONDecodeError\<close>, a \<^verbatim>\<open>ValueError\<close>.\<close>

definition json_start :: "char \<Rightarrow> bool" where
  \<open>json_start ch = (ch \<in> set ''{["-0123456789tfnNI'')\<close>

definition app_json_loads :: "pyval \<Rightarrow> pyval result" where
  "app_json_loads v =
     (case v of
        PStr s \<Rightarrow>
          (case dropWhile (\<lambda>ch. ch \<in> set [CHR '' '', CHR 0x09, CHR 0x0A, CHR 0x0D]) s of
             [] \<Rightarrow> raise ''JSONDecodeError'' []
           | ch # rest \<Rightarrow>
               if \<not> json_start ch then raise ''JSONDecodeError'' []
               else (case map_of (map (\<lambda>(d, text). (text, d)) app_documents) s of
                       Some d \<Rightarrow> Inr d
                     | None \<Rightarrow> unmodelled))
      | PBytes bs \<Rightarrow> unmodelled
      | _ \<Rightarrow> raise ''TypeError'' [])"

text \<open>\<^verbatim>\<open>pickle.dumps(MyError("boom"))\<close>, protocol 4: 41 bytes.\<close>

definition boom_pickle :: "nat list" where
  "boom_pickle =
     [128, 4, 149, 30, 0, 0, 0, 0, 0, 0, 0, 140, 3, 97, 112, 112, 148, 140, 7, 77, 121, 69,
      114, 114, 111, 114, 148, 147, 148, 140, 4, 98, 111, 111, 109, 148, 133, 148, 82, 148, 46]"

definition app_pickle_dumps :: "pyval \<Rightarrow> pyval result" where
  "app_pickle_dumps v =
     (if v = PInst MyError [PStr ''boom''] then Inr (PBytes boom_pickle) else unmodelled)"

definition app_pickle_loads :: "pyval \<Rightarrow> pyval result" where
  "app_pickle_loads v =
     (case v of
        PBytes bs \<Rightarrow> if bs = boom_pickle then Inr (PInst MyError [PStr ''boom'']) else unmodelled
      | PStr s \<Rightarrow> raise ''TypeError'' []
      | _ \<Rightarrow> unmodelled)"

definition app_import_module :: "pyval \<Rightarrow> pyval result" where
  "app_import_module v =
     (if v = PStr ''app'' then Inr (PModule ''app'')
      else if v = PStr ''missing'' then raise ''ModuleNotFoundError'' [v]
      else unmodelled)"

definition app_runtime :: runtime where
  "app_runtime =
     \<lparr>builtin_type_name = app_builtin_type_name,
      builtins_module = (\<lambda>n. ''builtins''),
      hasattr = app_hasattr,
      call_method = app_call_method,
      getattr = app_getattr,
      py_str = app_py_str,
      json_dumps = app_json_dumps,
      json_loads = app_json_loads,
      pickle_dumps = app_pickle_dumps,
      pickle_loads = app_pickle_loads,
      sys_modules = [''app'' \<mapsto> PModule ''app''],
      import_module = app_import_module\<rparr>"

section \<open>A configured backend\<close>

text \<open>The class of a raised exception, by name: \<open>raises r name\<close> holds when \<open>r\<close> is an
  exception whose class is called \<open>name\<close>.\<close>

definition raises :: "'a result \<Rightarrow> string \<Rightarrow> bool" where
  "raises r name = (case r of Inl (PInst c args) \<Rightarrow> cls_name c = name | _ \<Rightarrow> False)"

text \<open>\<^verbatim>\<open>cls.__bases__\<close> of a class made by \<^verbatim>\<open>type(name, bases, {})\<close>; the bases of the other
  classes are not recorded.\<close>

fun bases :: "pyclass \<Rightarrow> pyclass list" where
  "bases (TypeCall m n bs) = bs"
| "bases c = []"

text \<open>
  A concrete backend, on which the results about the constructor and the client are
  evaluated: the application's configuration holds the transport options of the class's
  docstring, without \<^verbatim>\<open>socket_timeout\<close> and with each host and port pair as a list of two;
  the parent's constructor has set up connection
  parameters; \<open>get_redis0\<close> stands for a \<^verbatim>\<open>get_redis_via_sentinel\<close> that returns an instance
  of the class it is given, \<open>get_redis_down\<close> for one that fails.
\<close>

definition sentinels0 :: pyval where
  "sentinels0 = PList [PList [PStr ''192.168.1.1'', PInt 26379],
                       PList [PStr ''192.168.1.2'', PInt 26379]]"

definition options0 :: pyval where
  "options0 = PDict [(PStr ''sentinels'', sentinels0), (PStr ''service_name'', PStr ''master'')]"

definition base0 :: redis_backend where
  "base0 = \<lparr>app_conf = [''CELERY_RESULT_BACKEND_TRANSPORT_OPTIONS'' \<mapsto> options0],
            connparams = [''host'' \<mapsto> PStr ''localhost'', ''port'' \<mapsto> PInt 6379,
                          ''db'' \<mapsto> PInt 0]\<rparr>"

definition backend0 :: sentinel_backend where
  "backend0 =
     \<lparr>app_conf = app_conf base0, connparams = connparams base0,
      transport_options = options0, sentinels = sentinels0, service_name = PStr ''master'',
      socket_timeout = PFloat (1 / 10), client_cache = None\<rparr>"

definition get_redis0 :: "pyclass \<Rightarrow> (string \<rightharpoonup> pyval) \<Rightarrow> pyval result" where
  "get_redis0 cls params = Inr (PInst cls [])"

definition get_redis_down :: "pyclass \<Rightarrow> (string \<rightharpoonup> pyval) \<Rightarrow> pyval result" where
  "get_redis_down cls params = raise ''ConnectionError'' []"

section \<open>Properties of the codec\<close>

text \<open>The definitions to unfold when the codec is evaluated on the Python 3 process.\<close>

lemmas app_defs =
  app_runtime_def app_hasattr_def app_call_method_def app_getattr_def app_py_str_def
  app_json_dumps_def app_json_loads_def app_pickle_dumps_def app_pickle_loads_def
  app_import_module_def app_documents_def app_classes_def has_codec_def json_start_def
  MyError_def CodecError_def LocalError_def boom_pickle_def

lemmas codec_defs =
  wrap_exc_def wrap_body_def unwrap_exc_def unwrap_body_def get_module_def modules_get_def
  try_except_def and_then_def raise_def envelope_def Exception_def py_type_def

text \<open>
  Claim C1. \<^verbatim>\<open>_wrap_exc\<close> never raises: it returns a value for every input in every
  runtime, and when a step of building the envelope raises (the test for \<^verbatim>\<open>serialize\<close>, the
  call of \<^verbatim>\<open>serialize\<close>, \<^verbatim>\<open>pickle.dumps\<close> or \<^verbatim>\<open>json.dumps\<close>), the value returned is the
  input exception \<open>e\<close> itself.
\<close>

theorem wrap_exc_never_raises:
  "(\<exists>v. wrap_exc rt e = Inr v) \<and>
   (\<forall>exn. wrap_body rt e = Inl exn \<longrightarrow> wrap_exc rt e = Inr e) \<and>
   (\<forall>exn. hasattr rt e ''serialize'' = Inl exn \<longrightarrow> wrap_exc rt e = Inr e) \<and>
   (\<forall>exn. hasattr rt e ''serialize'' = Inr True \<and> call_method rt e ''serialize'' [] = Inl exn
       \<longrightarrow> wrap_exc rt e = Inr e) \<and>
   (\<forall>exn. hasattr rt e ''serialize'' = Inr False \<and> pickle_dumps rt e = Inl exn
       \<longrightarrow> wrap_exc rt e = Inr e) \<and>
   (\<forall>has data exn.
       hasattr rt e ''serialize'' = Inr has \<and>
       (if has then call_method rt e ''serialize'' [] else pickle_dumps rt e) = Inr data \<and>
       json_dumps rt (envelope (PStr (cls_name (py_type rt e)))
                               (PStr (cls_module rt (py_type rt e))) data) = Inl exn
       \<longrightarrow> wrap_exc rt e = Inr e)"
  by (auto simp: wrap_exc_def wrap_body_def try_except_def and_then_def split: sum.splits)

theorem wrap_exc_never_raises_witness:
  "wrap_body app_runtime (PInst MyError [PStr ''boom'']) = Inl (PInst (Builtin ''TypeError'') []) \<and>
   wrap_exc app_runtime (PInst MyError [PStr ''boom'']) = Inr (PInst MyError [PStr ''boom''])"
  using wrap_exc_never_raises [of app_runtime "PInst MyError [PStr ''boom'']"]
  by (simp add: codec_defs app_defs)

text \<open>
  Claim C2. \<^verbatim>\<open>_unwrap_exc\<close> never raises: it returns a value for every input in every
  runtime, and when a step of the reconstruction raises (\<^verbatim>\<open>str\<close>, \<^verbatim>\<open>json.loads\<close>, a missing
  key of the payload, the resolution of the module, the lookup of the class,
  \<^verbatim>\<open>deserialize\<close> or \<^verbatim>\<open>pickle.loads\<close>), the value returned is the input \<open>e\<close>, unchanged.
\<close>

theorem unwrap_exc_never_raises:
  "(\<exists>v. unwrap_exc rt e = Inr v) \<and>
   (\<forall>exn. unwrap_body rt e = Inl exn \<longrightarrow> unwrap_exc rt e = Inr e) \<and>
   (\<forall>exn. py_str rt e = Inl exn \<longrightarrow> unwrap_exc rt e = Inr e) \<and>
   (\<forall>s. py_str rt e = Inr s \<longrightarrow>
      (\<forall>exn. json_loads rt s = Inl exn \<longrightarrow> unwrap_exc rt e = Inr e) \<and>
      (\<forall>exc. json_loads rt s = Inr exc \<longrightarrow>
         (\<forall>exn. getitem exc (PStr ''module'') = Inl exn \<longrightarrow> unwrap_exc rt e = Inr e) \<and>
         (\<forall>mname. getitem exc (PStr ''module'') = Inr mname \<longrightarrow>
            (\<forall>exn. get_module rt mname = Inl exn \<longrightarrow> unwrap_exc rt e = Inr e) \<and>
            (\<forall>mdl. get_module rt mname = Inr mdl \<longrightarrow>
               (\<forall>exn. getitem exc (PStr ''type'') = Inl exn \<longrightarrow> unwrap_exc rt e = Inr e) \<and>
               (\<forall>ty. getitem exc (PStr ''type'') = Inr ty \<longrightarrow>
                  (\<forall>exn. getattr rt mdl ty = Inl exn \<longrightarrow> unwrap_exc rt e = Inr e) \<and>
                  (\<forall>cls data exn.
                      getattr rt mdl ty = Inr cls \<and> getitem exc (PStr ''data'') = Inr data \<and>
                      (hasattr rt cls ''deserialize'' = Inr True \<and>
                         call_method rt cls ''deserialize'' [data] = Inl exn \<or>
                       hasattr rt cls ''deserialize'' = Inr False \<and>
                         pickle_loads rt data = Inl exn)
                      \<longrightarrow> unwrap_exc rt e = Inr e))))))"
  by (auto simp: unwrap_exc_def unwrap_body_def try_except_def and_then_def split: sum.splits)

theorem unwrap_exc_never_raises_witness:
  "unwrap_body app_runtime (PInst MyError [PStr ''boom'']) = Inl (PInst (Builtin ''JSONDecodeError'') []) \<and>
   unwrap_exc app_runtime (PInst MyError [PStr ''boom'']) = Inr (PInst MyError [PStr ''boom''])"
  using unwrap_exc_never_raises [of app_runtime "PInst MyError [PStr ''boom'']"]
  by (simp add: codec_defs app_defs)

text \<open>
  Claim C4. When wrapping an exception succeeds, that is when the body of the \<^verbatim>\<open>try\<close> returns,
  \<^verbatim>\<open>_wrap_exc\<close> returns an \<^verbatim>\<open>Exception\<close> whose text is \<^verbatim>\<open>json.dumps\<close> of a dictionary with exactly
  the keys \<^verbatim>\<open>type\<close>, \<^verbatim>\<open>module\<close> and \<^verbatim>\<open>data\<close>: the name of the exception's class, the module that
  defines the class, and the result of \<^verbatim>\<open>e.serialize()\<close> when \<open>e\<close> has the attribute
  \<^verbatim>\<open>serialize\<close>, of \<^verbatim>\<open>pickle.dumps(e)\<close> otherwise.
\<close>

theorem wrap_exc_envelope_fields:
  assumes "wrap_body rt (PInst c args) = Inr w"
  shows "wrap_exc rt (PInst c args) = Inr w \<and>
         (\<exists>data text.
            w = Exception text \<and>
            json_dumps rt (PDict [(PStr ''type'', PStr (cls_name c)),
                                  (PStr ''module'', PStr (cls_module rt c)),
                                  (PStr ''data'', data)]) = Inr text \<and>
            (hasattr rt (PInst c args) ''serialize'' = Inr True \<and>
               call_method rt (PInst c args) ''serialize'' [] = Inr data
             \<or> hasattr rt (PInst c args) ''serialize'' = Inr False \<and>
               pickle_dumps rt (PInst c args) = Inr data))"
  using assms
  by (auto simp: wrap_exc_def wrap_body_def try_except_def and_then_def envelope_def py_type_def
           split: sum.splits if_splits)

theorem wrap_exc_envelope_fields_witness:
  \<open>wrap_body app_runtime (PInst CodecError [PStr ''boom'']) =
     Inr (Exception (PStr ''{"type": "CodecError", "module": "app", "data": "boom"}'')) \<and>
   wrap_exc app_runtime (PInst CodecError [PStr ''boom'']) =
     Inr (Exception (PStr ''{"type": "CodecError", "module": "app", "data": "boom"}'')) \<and>
   json_dumps app_runtime (PDict [(PStr ''type'', PStr ''CodecError''),
                                  (PStr ''module'', PStr ''app''),
                                  (PStr ''data'', PStr ''boom'')]) =
     Inr (PStr ''{"type": "CodecError", "module": "app", "data": "boom"}'') \<and>
   hasattr app_runtime (PInst CodecError [PStr ''boom'']) ''serialize'' = Inr True \<and>
   call_method app_runtime (PInst CodecError [PStr ''boom'']) ''serialize'' [] = Inr (PStr ''boom'')\<close>
proof -
  have body: \<open>wrap_body app_runtime (PInst CodecError [PStr ''boom'']) =
     Inr (Exception (PStr ''{"type": "CodecError", "module": "app", "data": "boom"}''))\<close>
    by (simp add: codec_defs app_defs)
  show ?thesis
    using wrap_exc_envelope_fields [OF body] body
    by (simp add: codec_defs app_defs)
qed

text \<open>
  Claim C5. On a value whose text parses to a dictionary with the keys \<^verbatim>\<open>module\<close> (a string),
  \<^verbatim>\<open>type\<close> and \<^verbatim>\<open>data\<close>, \<^verbatim>\<open>_unwrap_exc\<close> takes the module from \<^verbatim>\<open>sys.modules\<close> when the entry
  there is a module object and imports it otherwise (also when the entry is some other
  object); it looks the type up as an attribute of that module; when the class found has
  the attribute \<^verbatim>\<open>deserialize\<close> it returns \<^verbatim>\<open>cls.deserialize(data)\<close>, and otherwise
  \<^verbatim>\<open>pickle.loads(data)\<close>; should that last call raise, the input is returned.
\<close>

theorem unwrap_exc_resolves_class:
  assumes "py_str rt e = Inr s"
    and "json_loads rt s = Inr (PDict kvs)"
    and "map_of kvs (PStr ''module'') = Some (PStr mname)"
    and "map_of kvs (PStr ''type'') = Some ty"
    and "map_of kvs (PStr ''data'') = Some data"
  shows "(\<forall>k. sys_modules rt mname = Some (PModule k) \<longrightarrow>
            get_module rt (PStr mname) = Inr (PModule k)) \<and>
         ((\<forall>k. sys_modules rt mname \<noteq> Some (PModule k)) \<longrightarrow>
            get_module rt (PStr mname) = import_module rt (PStr mname)) \<and>
         (\<forall>mdl cls. get_module rt (PStr mname) = Inr mdl \<and> getattr rt mdl ty = Inr cls \<longrightarrow>
            (hasattr rt cls ''deserialize'' = Inr True \<longrightarrow>
               unwrap_body rt e = call_method rt cls ''deserialize'' [data] \<and>
               unwrap_exc rt e = try_except (call_method rt cls ''deserialize'' [data]) (Inr e)) \<and>
            (hasattr rt cls ''deserialize'' = Inr False \<longrightarrow>
               unwrap_body rt e = pickle_loads rt data \<and>
               unwrap_exc rt e = try_except (pickle_loads rt data) (Inr e)))"
proof -
  have registered: "get_module rt (PStr mname) = Inr (PModule k)"
    if "sys_modules rt mname = Some (PModule k)" for k
    using that by (simp add: get_module_def modules_get_def and_then_def)
  have imported: "get_module rt (PStr mname) = import_module rt (PStr mname)"
    if "\<forall>k. sys_modules rt mname \<noteq> Some (PModule k)"
  proof (cases "sys_modules rt mname")
    case None
    then show ?thesis by (simp add: get_module_def modules_get_def and_then_def)
  next
    case (Some m)
    with that have "\<not> is_module m" by (cases m) auto
    with Some show ?thesis by (simp add: get_module_def modules_get_def and_then_def)
  qed
  have body: "unwrap_body rt e =
      (if has then call_method rt cls ''deserialize'' [data] else pickle_loads rt data)"
    if "get_module rt (PStr mname) = Inr mdl" "getattr rt mdl ty = Inr cls"
       "hasattr rt cls ''deserialize'' = Inr has" for mdl cls has
    using that assms by (simp add: unwrap_body_def and_then_def)
  show ?thesis
    using registered imported body [where has = True] body [where has = False]
    by (auto simp: unwrap_exc_def)
qed

theorem unwrap_exc_resolves_class_witness:
  \<open>py_str app_runtime (Exception (PStr ''{"type": "CodecError", "module": "app", "data": "boom"}''))
     = Inr (PStr ''{"type": "CodecError", "module": "app", "data": "boom"}'') \<and>
   json_loads app_runtime (PStr ''{"type": "CodecError", "module": "app", "data": "boom"}'')
     = Inr (PDict [(PStr ''type'', PStr ''CodecError''), (PStr ''module'', PStr ''app''),
                   (PStr ''data'', PStr ''boom'')]) \<and>
   sys_modules app_runtime ''app'' = Some (PModule ''app'') \<and>
   get_module app_runtime (PStr ''app'') = Inr (PModule ''app'') \<and>
   getattr app_runtime (PModule ''app'') (PStr ''CodecError'') = Inr (PClass CodecError) \<and>
   hasattr app_runtime (PClass CodecError) ''deserialize'' = Inr True \<and>
   call_method app_runtime (PClass CodecError) ''deserialize'' [PStr ''boom'']
     = Inr (PInst CodecError [PStr ''boom'']) \<and>
   unwrap_exc app_runtime (Exception (PStr ''{"type": "CodecError", "module": "app", "data": "boom"}''))
     = Inr (PInst CodecError [PStr ''boom''])\<close>
proof -
  let ?text = \<open>PStr ''{"type": "CodecError", "module": "app", "data": "boom"}''\<close>
  let ?kvs = "[(PStr ''type'', PStr ''CodecError''), (PStr ''module'', PStr ''app''),
               (PStr ''data'', PStr ''boom'')]"
  have 1: "py_str app_runtime (Exception ?text) = Inr ?text"
    by (simp add: codec_defs app_defs)
  have 2: "json_loads app_runtime ?text = Inr (PDict ?kvs)"
    by (simp add: codec_defs app_defs)
  have 3: "map_of ?kvs (PStr ''module'') = Some (PStr ''app'')" by simp
  have 4: "map_of ?kvs (PStr ''type'') = Some (PStr ''CodecError'')" by simp
  have 5: "map_of ?kvs (PStr ''data'') = Some (PStr ''boom'')" by simp
  show ?thesis
    using unwrap_exc_resolves_class [OF 1 2 3 4 5] 1 2
    by (simp add: codec_defs app_defs)
qed

text \<open>
  Claim C10. For an exception \<open>e\<close>, \<^verbatim>\<open>_wrap_exc\<close> returns an exception instance in every
  runtime: either \<open>e\<close> itself, when the body of the \<^verbatim>\<open>try\<close> raised, or a new instance of the
  base class \<^verbatim>\<open>Exception\<close>, whatever the class of \<open>e\<close>, that holds the JSON text of the
  envelope.
\<close>

theorem wrap_exc_returns_exception:
  assumes "e = PInst c args"
  shows "\<exists>r. wrap_exc rt e = Inr r \<and> is_instance r \<and>
           (r = e \<and> (\<exists>exn. wrap_body rt e = Inl exn)
            \<or> (\<exists>text data.
                  r = Exception text \<and> py_type rt r = Builtin ''Exception'' \<and>
                  json_dumps rt (envelope (PStr (cls_name c)) (PStr (cls_module rt c)) data)
                    = Inr text))"
  using assms
  by (auto simp: wrap_exc_def wrap_body_def try_except_def and_then_def py_type_def Exception_def
           split: sum.splits if_splits)

theorem wrap_exc_returns_exception_witness:
  \<open>wrap_exc app_runtime (PInst CodecError [PStr ''boom'']) =
     Inr (PInst (Builtin ''Exception'')
            [PStr ''{"type": "CodecError", "module": "app", "data": "boom"}'']) \<and>
   wrap_exc app_runtime (PInst MyError [PStr ''boom'']) = Inr (PInst MyError [PStr ''boom''])\<close>
  using wrap_exc_returns_exception [of "PInst CodecError [PStr ''boom'']" CodecError "[PStr ''boom'']" app_runtime]
  by (simp add: codec_defs app_defs)

section \<open>Wrapping, then unwrapping\<close>

text \<open>
  Claim C3 as stated, for every exception whose class has \<^verbatim>\<open>serialize\<close> and \<^verbatim>\<open>deserialize\<close>,
  fails on the Python 3 process: \<^verbatim>\<open>LocalError\<close> has both, and \<^verbatim>\<open>deserialize\<close> inverts
  \<^verbatim>\<open>serialize\<close>, but the class is not an attribute of its module, so \<^verbatim>\<open>getattr\<close> raises
  in \<^verbatim>\<open>_unwrap_exc\<close> and the wrapper comes back, an instance of \<^verbatim>\<open>Exception\<close>.
\<close>

theorem roundtrip_local_class_counterexample:
  \<open>hasattr app_runtime (PInst LocalError [PStr ''boom'']) ''serialize'' = Inr True \<and>
   call_method app_runtime (PInst LocalError [PStr ''boom'']) ''serialize'' [] = Inr (PStr ''boom'') \<and>
   hasattr app_runtime (PClass LocalError) ''deserialize'' = Inr True \<and>
   call_method app_runtime (PClass LocalError) ''deserialize'' [PStr ''boom'']
     = Inr (PInst LocalError [PStr ''boom'']) \<and>
   and_then (wrap_exc app_runtime (PInst LocalError [PStr ''boom''])) (unwrap_exc app_runtime)
     = Inr (PInst (Builtin ''Exception'')
              [PStr ''{"type": "LocalError", "module": "app", "data": "boom"}'']) \<and>
   Builtin ''Exception'' \<noteq> LocalError\<close>
  by (simp add: codec_defs app_defs)

text \<open>
  Claim C3, amended. Let \<open>e\<close> be an exception that has \<^verbatim>\<open>serialize\<close>, of a class that has
  \<^verbatim>\<open>deserialize\<close>, with \<^verbatim>\<open>deserialize\<close> returning an exception equal to \<open>e\<close> on what
  \<^verbatim>\<open>e.serialize()\<close> returns. Let the module of the class resolve, and the name of the class
  be bound in that module to the class itself. Let \<^verbatim>\<open>json.loads\<close> read the envelope back
  unchanged from the text of the wrapper whenever \<^verbatim>\<open>json.dumps\<close> accepts it, and let the text
  of \<open>e\<close> itself not be a JSON document. Then \<^verbatim>\<open>_unwrap_exc(_wrap_exc(e))\<close> returns an
  exception equal to \<open>e\<close>: same class, same state. That covers the case where
  \<^verbatim>\<open>serialize\<close> or \<^verbatim>\<open>json.dumps\<close> raises and \<open>e\<close> travels unwrapped.
\<close>

theorem wrap_unwrap_roundtrip:
  assumes "e = PInst c args"
    and has_serialize: "hasattr rt e ''serialize'' = Inr True"
    and has_deserialize: "hasattr rt (PClass c) ''deserialize'' = Inr True"
    and inverse:
      "\<forall>data. call_method rt e ''serialize'' [] = Inr data \<longrightarrow>
         call_method rt (PClass c) ''deserialize'' [data] = Inr e"
    and json_faithful:
      "\<forall>data text.
         call_method rt e ''serialize'' [] = Inr data \<longrightarrow>
         json_dumps rt (envelope (PStr (cls_name c)) (PStr (cls_module rt c)) data) = Inr text \<longrightarrow>
         (\<exists>s. py_str rt (Exception text) = Inr s \<and>
              json_loads rt s = Inr (envelope (PStr (cls_name c)) (PStr (cls_module rt c)) data))"
    and resolves:
      "\<exists>mdl. get_module rt (PStr (cls_module rt c)) = Inr mdl \<and>
             getattr rt mdl (PStr (cls_name c)) = Inr (PClass c)"
    and not_json: "\<forall>s. py_str rt e = Inr s \<longrightarrow> (\<exists>exn. json_loads rt s = Inl exn)"
  shows "and_then (wrap_exc rt e) (unwrap_exc rt) = Inr e"
proof (cases "wrap_body rt e")
  case (Inl exn)
  then have wrapped: "wrap_exc rt e = Inr e"
    by (simp add: wrap_exc_def try_except_def)
  have "\<exists>x. unwrap_body rt e = Inl x"
    using not_json by (auto simp: unwrap_body_def and_then_def split: sum.splits)
  then have "unwrap_exc rt e = Inr e"
    by (auto simp: unwrap_exc_def try_except_def)
  with wrapped show ?thesis by (simp add: and_then_def)
next
  case (Inr w)
  then obtain data payload where
    w: "w = Exception payload" and
    data: "call_method rt e ''serialize'' [] = Inr data" and
    payload: "json_dumps rt (envelope (PStr (cls_name c)) (PStr (cls_module rt c)) data) = Inr payload"
    using assms(1) has_serialize
    by (auto simp: wrap_body_def and_then_def py_type_def split: sum.splits)
  from Inr w have wrapped: "wrap_exc rt e = Inr (Exception payload)"
    by (simp add: wrap_exc_def try_except_def)
  from json_faithful data payload obtain s where
    s: "py_str rt (Exception payload) = Inr s" and
    exc: "json_loads rt s = Inr (envelope (PStr (cls_name c)) (PStr (cls_module rt c)) data)"
    by blast
  from resolves obtain mdl where
    mdl: "get_module rt (PStr (cls_module rt c)) = Inr mdl" and
    cls: "getattr rt mdl (PStr (cls_name c)) = Inr (PClass c)"
    by blast
  from inverse data have "call_method rt (PClass c) ''deserialize'' [data] = Inr e"
    by blast
  with s exc mdl cls has_deserialize have "unwrap_body rt (Exception payload) = Inr e"
    by (simp add: unwrap_body_def and_then_def envelope_def)
  then have "unwrap_exc rt (Exception payload) = Inr e"
    by (simp add: unwrap_exc_def try_except_def)
  with wrapped show ?thesis by (simp add: and_then_def)
qed

theorem wrap_unwrap_roundtrip_witness:
  "and_then (wrap_exc app_runtime (PInst CodecError [PStr ''boom''])) (unwrap_exc app_runtime)
     = Inr (PInst CodecError [PStr ''boom'']) \<and>
   wrap_exc app_runtime (PInst CodecError [PStr ''boom''])
     \<noteq> Inr (PInst CodecError [PStr ''boom''])"
proof -
  let ?e = "PInst CodecError [PStr ''boom'']"
  have 1: "?e = PInst CodecError [PStr ''boom'']" by simp
  have 2: "hasattr app_runtime ?e ''serialize'' = Inr True"
    by (simp add: app_defs)
  have 3: "hasattr app_runtime (PClass CodecError) ''deserialize'' = Inr True"
    by (simp add: app_defs)
  have 4: "\<forall>data. call_method app_runtime ?e ''serialize'' [] = Inr data \<longrightarrow>
             call_method app_runtime (PClass CodecError) ''deserialize'' [data] = Inr ?e"
    by (simp add: app_defs raise_def)
  have 5: "\<forall>data text.
         call_method app_runtime ?e ''serialize'' [] = Inr data \<longrightarrow>
         json_dumps app_runtime
           (envelope (PStr (cls_name CodecError)) (PStr (cls_module app_runtime CodecError)) data)
           = Inr text \<longrightarrow>
         (\<exists>s. py_str app_runtime (Exception text) = Inr s \<and>
              json_loads app_runtime s =
                Inr (envelope (PStr (cls_name CodecError))
                       (PStr (cls_module app_runtime CodecError)) data))"
    by (simp add: app_defs raise_def envelope_def Exception_def)
  have 6: "\<exists>mdl. get_module app_runtime (PStr (cls_module app_runtime CodecError)) = Inr mdl \<and>
             getattr app_runtime mdl (PStr (cls_name CodecError)) = Inr (PClass CodecError)"
    by (simp add: app_defs codec_defs)
  have 7: "\<forall>s. py_str app_runtime ?e = Inr s \<longrightarrow> (\<exists>exn. json_loads app_runtime s = Inl exn)"
    by (simp add: app_defs raise_def)
  have 8: "wrap_exc app_runtime ?e \<noteq> Inr ?e"
    by (simp add: app_defs codec_defs)
  show ?thesis
    using wrap_unwrap_roundtrip [OF 1 2 3 4 5 6 7] 8 by simp
qed

text \<open>
  Claim C7. Let \<open>e\<close> be an exception without \<^verbatim>\<open>serialize\<close> whose class has no
  \<^verbatim>\<open>deserialize\<close>, such as \<^verbatim>\<open>MyError("boom")\<close>, in a runtime where the text of \<open>e\<close> is not a
  JSON document, where \<^verbatim>\<open>json.loads\<close> reads the envelope back as \<^verbatim>\<open>json.dumps\<close> wrote it, and
  where \<^verbatim>\<open>pickle.loads\<close>, when it returns, restores what \<^verbatim>\<open>pickle.dumps\<close> wrote. Then
  \<^verbatim>\<open>_unwrap_exc(_wrap_exc(e))\<close> returns an exception instance: either an exception equal to
  \<open>e\<close>, message included, or the wrapper whose text is the JSON envelope that carries
  \<^verbatim>\<open>pickle.dumps(e)\<close> as its data. On Python 3 \<^verbatim>\<open>pickle.dumps\<close> returns bytes, which
  \<^verbatim>\<open>json.dumps\<close> rejects: there the first case applies, through both fallbacks.
\<close>

theorem wrap_unwrap_generic_fallback:
  assumes "e = PInst c args"
    and no_serialize: "hasattr rt e ''serialize'' = Inr False"
    and not_json: "\<forall>s. py_str rt e = Inr s \<longrightarrow> (\<exists>exn. json_loads rt s = Inl exn)"
    and json_faithful:
      "\<forall>data text s exc.
         pickle_dumps rt e = Inr data \<longrightarrow>
         json_dumps rt (envelope (PStr (cls_name c)) (PStr (cls_module rt c)) data) = Inr text \<longrightarrow>
         py_str rt (Exception text) = Inr s \<longrightarrow>
         json_loads rt s = Inr exc \<longrightarrow>
         exc = envelope (PStr (cls_name c)) (PStr (cls_module rt c)) data"
    and no_deserialize:
      "\<forall>mdl cls. getattr rt mdl (PStr (cls_name c)) = Inr cls \<longrightarrow>
         hasattr rt cls ''deserialize'' \<noteq> Inr True"
    and pickle_inverse:
      "\<forall>data v. pickle_dumps rt e = Inr data \<longrightarrow> pickle_loads rt data = Inr v \<longrightarrow> v = e"
  shows "\<exists>r. and_then (wrap_exc rt e) (unwrap_exc rt) = Inr r \<and> is_instance r \<and>
           (r = e \<or>
            (\<exists>data text.
               r = Exception text \<and>
               pickle_dumps rt e = Inr data \<and>
               json_dumps rt (envelope (PStr (cls_name c)) (PStr (cls_module rt c)) data)
                 = Inr text))"
proof (cases "wrap_body rt e")
  case (Inl exn)
  then have wrapped: "wrap_exc rt e = Inr e"
    by (simp add: wrap_exc_def try_except_def)
  have "\<exists>x. unwrap_body rt e = Inl x"
    using not_json by (auto simp: unwrap_body_def and_then_def split: sum.splits)
  then have "unwrap_exc rt e = Inr e"
    by (auto simp: unwrap_exc_def try_except_def)
  with wrapped assms(1) show ?thesis by (simp add: and_then_def)
next
  case (Inr w)
  then obtain data payload where
    w: "w = Exception payload" and
    data: "pickle_dumps rt e = Inr data" and
    payload: "json_dumps rt (envelope (PStr (cls_name c)) (PStr (cls_module rt c)) data) = Inr payload"
    using assms(1) no_serialize
    by (auto simp: wrap_body_def and_then_def py_type_def split: sum.splits)
  from Inr w have wrapped: "wrap_exc rt e = Inr (Exception payload)"
    by (simp add: wrap_exc_def try_except_def)
  have "unwrap_exc rt (Exception payload) = Inr (Exception payload) \<or> unwrap_exc rt (Exception payload) = Inr e"
  proof (cases "unwrap_body rt (Exception payload)")
    case (Inl exn)
    then show ?thesis by (simp add: unwrap_exc_def try_except_def)
  next
    case (Inr v)
    then obtain s exc where s: "py_str rt (Exception payload) = Inr s" and exc: "json_loads rt s = Inr exc"
      by (auto simp: unwrap_body_def and_then_def split: sum.splits)
    with json_faithful data payload
    have exc_eq: "exc = envelope (PStr (cls_name c)) (PStr (cls_module rt c)) data" by blast
    have "v = e"
    proof -
      from Inr s exc exc_eq obtain mdl cls has where
        cls: "getattr rt mdl (PStr (cls_name c)) = Inr cls"
        and has: "hasattr rt cls ''deserialize'' = Inr has"
        and v: "(if has then call_method rt cls ''deserialize'' [data]
                 else pickle_loads rt data) = Inr v"
        by (auto simp: unwrap_body_def and_then_def envelope_def split: sum.splits if_splits)
      from no_deserialize cls has have "\<not> has" by auto
      with v have "pickle_loads rt data = Inr v" by simp
      with pickle_inverse data show ?thesis by blast
    qed
    with Inr show ?thesis by (simp add: unwrap_exc_def try_except_def)
  qed
  with wrapped data payload assms(1) show ?thesis
    by (auto simp: and_then_def Exception_def)
qed

theorem wrap_unwrap_generic_fallback_witness:
  "and_then (wrap_exc app_runtime (PInst MyError [PStr ''boom''])) (unwrap_exc app_runtime)
     = Inr (PInst MyError [PStr ''boom'']) \<and>
   hasattr app_runtime (PInst MyError [PStr ''boom'']) ''serialize'' = Inr False \<and>
   hasattr app_runtime (PClass MyError) ''deserialize'' = Inr False \<and>
   py_str app_runtime (PInst MyError [PStr ''boom'']) = Inr (PStr ''boom'')"
proof -
  let ?e = "PInst MyError [PStr ''boom'']"
  have 1: "?e = PInst MyError [PStr ''boom'']" by simp
  have 2: "hasattr app_runtime ?e ''serialize'' = Inr False"
    by (simp add: app_defs)
  have 3: "\<forall>s. py_str app_runtime ?e = Inr s \<longrightarrow> (\<exists>exn. json_loads app_runtime s = Inl exn)"
    by (simp add: app_defs raise_def)
  have 4: "\<forall>data text s exc.
         pickle_dumps app_runtime ?e = Inr data \<longrightarrow>
         json_dumps app_runtime
           (envelope (PStr (cls_name MyError)) (PStr (cls_module app_runtime MyError)) data) = Inr text \<longrightarrow>
         py_str app_runtime (Exception text) = Inr s \<longrightarrow>
         json_loads app_runtime s = Inr exc \<longrightarrow>
         exc = envelope (PStr (cls_name MyError)) (PStr (cls_module app_runtime MyError)) data"
    by (simp add: app_defs raise_def envelope_def)
  have 5: "\<forall>mdl cls. getattr app_runtime mdl (PStr (cls_name MyError)) = Inr cls \<longrightarrow>
         hasattr app_runtime cls ''deserialize'' \<noteq> Inr True"
    by (auto simp: app_defs raise_def split: pyval.splits if_splits)
  have 6: "\<forall>data v. pickle_dumps app_runtime ?e = Inr data \<longrightarrow>
             pickle_loads app_runtime data = Inr v \<longrightarrow> v = ?e"
    by (simp add: app_defs raise_def)
  show ?thesis
    using wrap_unwrap_generic_fallback [OF 1 2 3 4 5 6]
    by (simp add: codec_defs app_defs)
qed

section \<open>Properties of the backend\<close>

text \<open>The definitions to unfold when the constructor is evaluated.\<close>

lemmas backend_defs =
  RedisSentinelBackend_init_def py_or_def conf_get_def and_then_def raise_def Let_def
  base0_def backend0_def options0_def sentinels0_def

text \<open>
  Claim C6 as stated fails: on transport options without \<^verbatim>\<open>sentinels\<close> the constructor
  raises the \<^verbatim>\<open>KeyError\<close> of the subscription, and no class named \<^verbatim>\<open>ConfigurationError\<close>
  occurs in the code.
\<close>

theorem init_missing_key_counterexample:
  "RedisSentinelBackend_init (Inr base0) (PDict [(PStr ''service_name'', PStr ''master'')])
     = Inl (PInst (Builtin ''KeyError'') [PStr ''sentinels'']) \<and>
   \<not> raises (RedisSentinelBackend_init (Inr base0) (PDict [(PStr ''service_name'', PStr ''master'')]))
        ''ConfigurationError''"
  by (simp add: backend_defs raises_def)

text \<open>
  Claim C6, amended. The transport options in effect are the argument when it is true,
  else the configured \<^verbatim>\<open>CELERY_RESULT_BACKEND_TRANSPORT_OPTIONS\<close> when that is true, else the
  empty dictionary. When they are a dictionary without \<^verbatim>\<open>sentinels\<close> or without
  \<^verbatim>\<open>service_name\<close>, construction fails, once the parent's constructor has returned, with
  \<^verbatim>\<open>KeyError\<close> of the first of the two keys that is missing; and it fails as the parent's
  constructor does when that one raises.
\<close>

theorem init_missing_key:
  assumes "py_or arg (py_or (conf_get base ''CELERY_RESULT_BACKEND_TRANSPORT_OPTIONS'') (PDict []))
             = PDict kvs"
    and "map_of kvs (PStr ''sentinels'') = None \<or> map_of kvs (PStr ''service_name'') = None"
  shows "RedisSentinelBackend_init (Inr base) arg =
           raise ''KeyError'' [PStr (if map_of kvs (PStr ''sentinels'') = None then ''sentinels''
                                     else ''service_name'')] \<and>
         raises (RedisSentinelBackend_init (Inr base) arg) ''KeyError'' \<and>
         (\<forall>exn. \<exists>exn'. RedisSentinelBackend_init (Inl exn) arg = Inl exn')"
  using assms
  by (auto simp: RedisSentinelBackend_init_def and_then_def raise_def raises_def Let_def
           split: option.splits)

theorem init_missing_key_witness:
  "RedisSentinelBackend_init (Inr base0) (PDict [(PStr ''sentinels'', sentinels0)])
     = Inl (PInst (Builtin ''KeyError'') [PStr ''service_name''])"
proof -
  have 1: "py_or (PDict [(PStr ''sentinels'', sentinels0)])
             (py_or (conf_get base0 ''CELERY_RESULT_BACKEND_TRANSPORT_OPTIONS'') (PDict []))
           = PDict [(PStr ''sentinels'', sentinels0)]"
    by (simp add: py_or_def)
  have 2: "map_of [(PStr ''sentinels'', sentinels0)] (PStr ''sentinels'') = None \<or>
           map_of [(PStr ''sentinels'', sentinels0)] (PStr ''service_name'') = None"
    by simp
  show ?thesis
    using init_missing_key [OF 1 2] by (simp add: raise_def)
qed

text \<open>
  Claim C9. When the transport options, passed as the argument or configured with no true
  argument passed, are a dictionary with \<^verbatim>\<open>sentinels\<close> and \<^verbatim>\<open>service_name\<close>, construction
  succeeds once the parent's constructor has returned, and the field \<^verbatim>\<open>socket_timeout\<close> is
  \<^verbatim>\<open>0.1\<close> when the dictionary has no key \<^verbatim>\<open>socket_timeout\<close>, and the value under that key
  otherwise.
\<close>

theorem init_socket_timeout:
  assumes "arg = PDict kvs \<or>
           \<not> truthy arg \<and> conf_get base ''CELERY_RESULT_BACKEND_TRANSPORT_OPTIONS'' = PDict kvs"
    and "map_of kvs (PStr ''sentinels'') = Some sents"
    and "map_of kvs (PStr ''service_name'') = Some name"
  shows "\<exists>self. RedisSentinelBackend_init (Inr base) arg = Inr self \<and>
           sentinels self = sents \<and> service_name self = name \<and>
           socket_timeout self =
             (case map_of kvs (PStr ''socket_timeout'') of
                None \<Rightarrow> PFloat (1 / 10)
              | Some timeout \<Rightarrow> timeout)"
proof -
  from assms(2) have "kvs \<noteq> []" by auto
  with assms(1)
  have "py_or arg (py_or (conf_get base ''CELERY_RESULT_BACKEND_TRANSPORT_OPTIONS'') (PDict []))
          = PDict kvs"
    by (auto simp: py_or_def)
  with assms(2,3) show ?thesis
    by (simp add: RedisSentinelBackend_init_def and_then_def split: option.splits)
qed

theorem init_socket_timeout_witness:
  "(\<exists>self. RedisSentinelBackend_init (Inr base0)
             (PDict [(PStr ''sentinels'', sentinels0), (PStr ''service_name'', PStr ''master'')])
           = Inr self \<and> socket_timeout self = PFloat (1 / 10)) \<and>
   (\<exists>self. RedisSentinelBackend_init (Inr base0)
             (PDict [(PStr ''sentinels'', sentinels0), (PStr ''service_name'', PStr ''master''),
                     (PStr ''socket_timeout'', PFloat (1 / 2))])
           = Inr self \<and> socket_timeout self = PFloat (1 / 2))"
  using init_socket_timeout [of "PDict [(PStr ''sentinels'', sentinels0), (PStr ''service_name'', PStr ''master'')]"
          "[(PStr ''sentinels'', sentinels0), (PStr ''service_name'', PStr ''master'')]"
          base0 sentinels0 "PStr ''master''"]
        init_socket_timeout [of "PDict [(PStr ''sentinels'', sentinels0), (PStr ''service_name'', PStr ''master''),
                     (PStr ''socket_timeout'', PFloat (1 / 2))]"
          "[(PStr ''sentinels'', sentinels0), (PStr ''service_name'', PStr ''master''),
                     (PStr ''socket_timeout'', PFloat (1 / 2))]"
          base0 sentinels0 "PStr ''master''"]
  by auto

text \<open>An access to a filled slot returns its value and changes nothing, whatever
  \<^verbatim>\<open>get_redis_via_sentinel\<close> would do.\<close>

lemma client_cached: "client_cache self = Some c \<Longrightarrow> client g self = (Inr c, self)"
  by (simp add: client_def)

lemma client_again_cached:
  "client_cache (snd acc) = Some c \<Longrightarrow> fst acc = Inr c \<Longrightarrow> client_again g n acc = acc"
proof (induction n arbitrary: acc)
  case 0
  then show ?case by simp
next
  case (Suc n)
  from Suc.prems have step: "client g (snd acc) = acc"
    by (simp add: client_cached prod_eq_iff)
  with Suc show ?case by simp
qed

text \<open>
  Claim C8. The constructor leaves the slot of \<^verbatim>\<open>client\<close> empty. The first access calls
  \<^verbatim>\<open>get_redis_via_sentinel\<close> with a class whose bases are \<^verbatim>\<open>EnsuredRedisMixin\<close>, the retry
  mixin, and \<^verbatim>\<open>Redis\<close>, and with the connection parameters of the parent in which the
  entries \<^verbatim>\<open>sentinels\<close>, \<^verbatim>\<open>service_name\<close> and \<^verbatim>\<open>socket_timeout\<close> are set from the backend's
  fields; the client it returns is stored, and every later access returns it without
  another call, whatever \<^verbatim>\<open>get_redis_via_sentinel\<close> would do then.
\<close>

theorem client_lazy_cached:
  assumes init: "RedisSentinelBackend_init (Inr base) arg = Inr self"
    and no_clash: "connparams base ''redis_class'' = None"
    and made: "get_redis redis_class (sentinel_params self) = Inr c"
  shows "client_cache self = None \<and>
         fst (client get_redis self) = get_redis redis_class (sentinel_params self) \<and>
         client_cache (snd (client get_redis self)) = Some c \<and>
         connparams (snd (client get_redis self)) = sentinel_params self \<and>
         (\<forall>g n. client_again g n (client get_redis self) = client get_redis self) \<and>
         sentinel_params self ''sentinels'' = Some (sentinels self) \<and>
         sentinel_params self ''service_name'' = Some (service_name self) \<and>
         sentinel_params self ''socket_timeout'' = Some (socket_timeout self) \<and>
         (\<forall>k. k \<noteq> ''sentinels'' \<and> k \<noteq> ''service_name'' \<and> k \<noteq> ''socket_timeout'' \<longrightarrow>
              sentinel_params self k = connparams base k) \<and>
         bases redis_class = [EnsuredRedisMixin, Redis]"
proof -
  from init have fresh: "client_cache self = None" and conn: "connparams self = connparams base"
    by (auto simp: RedisSentinelBackend_init_def and_then_def Let_def split: sum.splits)
  from no_clash conn have free: "sentinel_params self ''redis_class'' = None"
    by (simp add: sentinel_params_def)
  from fresh free made
  have first: "client get_redis self =
      (Inr c, self\<lparr>connparams := sentinel_params self, client_cache := Some c\<rparr>)"
    by (simp add: client_def Let_def)
  have again: "client_again g n (client get_redis self) = client get_redis self" for g n
    by (rule client_again_cached [where c = c]) (simp_all add: first)
  have params: "sentinel_params self k = connparams base k"
    if "k \<noteq> ''sentinels'' \<and> k \<noteq> ''service_name'' \<and> k \<noteq> ''socket_timeout''" for k
    using that conn by (simp add: sentinel_params_def)
  show ?thesis
    using fresh first made again params
    by (simp add: sentinel_params_def redis_class_def)
qed

theorem client_lazy_cached_witness:
  "RedisSentinelBackend_init (Inr base0) PNone = Inr backend0 \<and>
   client_cache backend0 = None \<and>
   fst (client get_redis0 backend0) = Inr (PInst redis_class []) \<and>
   fst (client_again get_redis_down 2 (client get_redis0 backend0)) = Inr (PInst redis_class []) \<and>
   connparams (snd (client get_redis0 backend0)) ''service_name'' = Some (PStr ''master'') \<and>
   connparams (snd (client get_redis0 backend0)) ''host'' = Some (PStr ''localhost'')"
proof -
  have 1: "RedisSentinelBackend_init (Inr base0) PNone = Inr backend0"
    by (simp add: RedisSentinelBackend_init_def py_or_def conf_get_def and_then_def Let_def
        base0_def backend0_def options0_def)
  have 2: "connparams base0 ''redis_class'' = None"
    by (simp add: base0_def)
  have 3: "get_redis0 redis_class (sentinel_params backend0) = Inr (PInst redis_class [])"
    by (simp add: get_redis0_def)
  note cached = client_lazy_cached [where get_redis = get_redis0, OF 1 2 3]
  from cached have fresh: "client_cache backend0 = None"
    by blast
  from cached 3 have first: "fst (client get_redis0 backend0) = Inr (PInst redis_class [])"
    by simp
  from cached
  have again: "client_again get_redis_down 2 (client get_redis0 backend0) = client get_redis0 backend0"
    by blast
  from cached have merged: "connparams (snd (client get_redis0 backend0)) = sentinel_params backend0"
    by blast
  have name: "sentinel_params backend0 ''service_name'' = Some (PStr ''master'')"
    by (simp add: sentinel_params_def backend0_def)
  have host: "sentinel_params backend0 ''host'' = Some (PStr ''localhost'')"
    by (simp add: sentinel_params_def backend0_def base0_def)
  show ?thesis
    using 1 fresh first again merged name host by simp
qed

end
